theory Spec2Isabelle
  imports Main
begin

section \<open>JavaScript values and the built-ins the scripts use\<close>

text \<open>
  The scripts are plain browser JavaScript. Values are modelled by one datatype; numbers are
  the integers (every number the scripts handle is an integer: clock and calendar fields,
  a roll number, an identity number), strings are ASCII character lists.
  An object literal or parsed JSON object is an association list in which a later binding
  of a key overrides an earlier one.
\<close>

datatype jsval =
    Undefined
  | Null
  | Bool bool
  | Num int
  | Str string
  | Arr "jsval list"
  | Obj "(string \<times> jsval) list"

datatype js_error =
    Error string
  | TypeError string
  | SyntaxError string

text \<open>\<^verbatim>\<open>Number.prototype.toString()\<close> on an integer: decimal digits, most significant first.\<close>

definition digit_char :: "nat \<Rightarrow> char" where
  "digit_char d = ''0123456789'' ! (d mod 10)"

fun nat_toString :: "nat \<Rightarrow> string" where
  "nat_toString n =
     (if n < 10 then [digit_char n] else nat_toString (n div 10) @ [digit_char (n mod 10)])"

declare nat_toString.simps [simp del]

definition int_toString :: "int \<Rightarrow> string" where
  "int_toString i = (if i < 0 then ''-'' @ nat_toString (nat (- i)) else nat_toString (nat i))"

text \<open>\<^verbatim>\<open>Array.prototype.join\<close> with the default separator.\<close>

fun join_comma :: "string list \<Rightarrow> string" where
  "join_comma [] = []"
| "join_comma [s] = s"
| "join_comma (s # t # ss) = s @ '','' @ join_comma (t # ss)"

text \<open>
  The abstract operation ToString, which string concatenation with \<^verbatim>\<open>+\<close> and template
  literals apply to a non-string operand.
\<close>

fun js_toString :: "jsval \<Rightarrow> string" where
  "js_toString Undefined = ''undefined''"
| "js_toString Null = ''null''"
| "js_toString (Bool b) = (if b then ''true'' else ''false'')"
| "js_toString (Num i) = int_toString i"
| "js_toString (Str s) = s"
| "js_toString (Arr xs) =
     join_comma (map (\<lambda>x. if x = Undefined \<or> x = Null then [] else js_toString x) xs)"
| "js_toString (Obj kvs) = ''[object Object]''"


text \<open>Truthiness (ToBoolean), and the loose comparison \<^verbatim>\<open>v == undefined\<close>.\<close>

fun truthy :: "jsval \<Rightarrow> bool" where
  "truthy Undefined = False"
| "truthy Null = False"
| "truthy (Bool b) = b"
| "truthy (Num i) = (i \<noteq> 0)"
| "truthy (Str s) = (s \<noteq> [])"
| "truthy (Arr xs) = True"
| "truthy (Obj kvs) = True"

fun eq_undefined :: "jsval \<Rightarrow> bool" where
  "eq_undefined Undefined = True"
| "eq_undefined Null = True"
| "eq_undefined v = False"

text \<open>
  \<^verbatim>\<open>String.prototype.toUpperCase()\<close> is the engine's Unicode case mapping. The code that
  calls it takes it as the parameter \<open>toUpperCase\<close>, so what is proved of that code holds
  for every string and whatever the mapping does. On text made of ASCII characters only, the
  mapping raises the letters a to z and keeps every other character: that restriction is
  \<open>ascii_toUpperCase\<close>, used to run the code on ASCII examples.
\<close>

definition char_toUpperCase :: "char \<Rightarrow> char" where
  "char_toUpperCase c =
     (let n = (of_char c :: nat) in if 97 \<le> n \<and> n \<le> 122 then char_of (n - 32) else c)"

definition ascii_toUpperCase :: "string \<Rightarrow> string" where
  "ascii_toUpperCase s = map char_toUpperCase s"

text \<open>
  \<^verbatim>\<open>String.prototype.padStart(targetLength, padString)\<close>: the pad string is repeated and cut
  to the missing length; nothing is added when the string is long enough or the pad is empty.
\<close>

definition padStart :: "nat \<Rightarrow> string \<Rightarrow> string \<Rightarrow> string" where
  "padStart target pad s =
     (if target \<le> length s \<or> pad = [] then s
      else take (target - length s) (concat (replicate (target - length s) pad)) @ s)"

text \<open>
  A \<^verbatim>\<open>Date\<close> holds a local civil time. \<^verbatim>\<open>getMonth()\<close> is zero-based: it returns the
  calendar month (1 to 12) less one. The other getters return the field.
\<close>

record js_date =
  civil_year :: nat
  civil_month :: nat
  civil_day :: nat
  civil_hours :: nat
  civil_minutes :: nat
  civil_seconds :: nat

definition getFullYear :: "js_date \<Rightarrow> nat" where
  "getFullYear d = civil_year d"

definition getMonth :: "js_date \<Rightarrow> nat" where
  "getMonth d = civil_month d - 1"

definition getDate :: "js_date \<Rightarrow> nat" where
  "getDate d = civil_day d"

definition getHours :: "js_date \<Rightarrow> nat" where
  "getHours d = civil_hours d"

definition getMinutes :: "js_date \<Rightarrow> nat" where
  "getMinutes d = civil_minutes d"

definition getSeconds :: "js_date \<Rightarrow> nat" where
  "getSeconds d = civil_seconds d"

definition nl :: string where
  "nl = [CHR 0x0A]"

section \<open>classes/constructor.js: Student and CS_Student\<close>

text \<open>
  An instance is its own properties: a map from property names to values. Reading a
  property that is absent yields \<^verbatim>\<open>undefined\<close>. Each method returns the updated instance
  and the lines it passes to \<^verbatim>\<open>console.log\<close>, one list element per call.
\<close>

type_synonym obj = "string \<rightharpoonup> jsval"

definition get :: "obj \<Rightarrow> string \<Rightarrow> jsval" where
  "get ob k = (case ob k of None \<Rightarrow> Undefined | Some v \<Rightarrow> v)"

text \<open>
  The constructor calls \<^verbatim>\<open>toUpperCase\<close> on both arguments, which only a string has: any
  other argument raises a TypeError and no instance is created. The built-in itself is the
  first parameter. (The wording of an engine's
  error messages is not part of the model; one fixed text stands for it.)
\<close>

fun Student_constructor ::
  "(string \<Rightarrow> string) \<Rightarrow> jsval \<Rightarrow> jsval \<Rightarrow> js_error + (obj \<times> string list)" where
  "Student_constructor toUpperCase (Str name) (Str program) =
     (let this = Map.empty(''name'' \<mapsto> Str name);
          this = this(''name'' \<mapsto> Str (toUpperCase name));
          this = this(''program'' \<mapsto> Str program);
          this = this(''program'' \<mapsto> Str (toUpperCase program))
      in Inr (this,
        [js_toString (get this ''name'') @ '' Your Form is in panding please submit it first'']))"
| "Student_constructor toUpperCase name program =
     Inl (TypeError ''toUpperCase is not a function'')"

definition Student_submit :: "js_date \<Rightarrow> obj \<Rightarrow> obj \<times> string list" where
  "Student_submit now this =
     (let out = [js_toString (get this ''name'') @ '' Your Form is subbmitted For Prgram ''
                   @ js_toString (get this ''program'')];
          this = this(''hours'' \<mapsto> Str (padStart 2 ''0'' (nat_toString (getHours now))));
          this = this(''minutes'' \<mapsto> Str (padStart 2 ''0'' (nat_toString (getMinutes now))));
          this = this(''seconds'' \<mapsto> Str (padStart 2 ''0'' (nat_toString (getSeconds now))));
          this = this(''date'' \<mapsto> Str (nat_toString (getDate now) @ ''/''
                   @ nat_toString (getMonth now) @ ''/'' @ nat_toString (getFullYear now)))
      in (this, out))"

definition Student_cancel :: "js_date \<Rightarrow> obj \<Rightarrow> obj \<times> string list" where
  "Student_cancel x this =
     (let out = [js_toString (get this ''name'') @ '' Your Form was Cancelled '' @ '' on  ''
                   @ nat_toString (getDate x) @ ''/'' @ nat_toString (getMonth x) @ ''/''
                   @ nat_toString (getFullYear x) @ '' For Program ''
                   @ js_toString (get this ''program'')];
          this = this(''name'' \<mapsto> Undefined);
          this = this(''program'' \<mapsto> Undefined)
      in (this, out))"

definition Student_info :: "obj \<Rightarrow> string list" where
  "Student_info this =
     (if eq_undefined (get this ''name'') then [''Student not exits!'']
      else [nl @ ''Student Informations:'',
            ''Name: '' @ js_toString (get this ''name'') @ nl @ ''Program: ''
              @ js_toString (get this ''program'') @ nl @ ''Date: ''
              @ js_toString (get this ''hours'') @ '':'' @ js_toString (get this ''minutes'')
              @ '':'' @ js_toString (get this ''seconds'') @ '' on ''
              @ js_toString (get this ''date'')])"

definition CS_Student_add :: "jsval \<Rightarrow> jsval \<Rightarrow> obj \<Rightarrow> obj" where
  "CS_Student_add rnumber nice this =
     (let this = this(''rnumber'' \<mapsto> rnumber);
          this = this(''nice'' \<mapsto> nice)
      in this)"

definition CS_Student_info :: "obj \<Rightarrow> string list" where
  "CS_Student_info this =
     (if eq_undefined (get this ''name'') then [''Student not exits!'']
      else Student_info this
        @ [nl @ ''Roll Number: '' @ js_toString (get this ''rnumber'') @ nl @ ''NICE: ''
             @ js_toString (get this ''nice'')])"

text \<open>
  \<^verbatim>\<open>CS_Student\<close> declares no constructor, so \<^verbatim>\<open>new CS_Student(..)\<close> runs the inherited
  one. A method call is resolved along the prototype chain of the instance's class:
  \<^verbatim>\<open>info\<close> is overridden, \<^verbatim>\<open>add\<close> exists on \<^verbatim>\<open>CS_Student\<close> only, and calling
  it on a plain \<^verbatim>\<open>Student\<close> raises a TypeError.
\<close>

datatype cls = Student | CS_Student

datatype method_call = Submit js_date | Cancel js_date | Info | Add jsval jsval

definition new ::
  "(string \<Rightarrow> string) \<Rightarrow> cls \<Rightarrow> jsval \<Rightarrow> jsval \<Rightarrow> js_error + (obj \<times> string list)" where
  "new toUpperCase c name program = Student_constructor toUpperCase name program"


fun invoke :: "cls \<Rightarrow> method_call \<Rightarrow> obj \<Rightarrow> js_error + (obj \<times> string list)" where
  "invoke c (Submit now) this = Inr (Student_submit now this)"
| "invoke c (Cancel x) this = Inr (Student_cancel x this)"
| "invoke Student Info this = Inr (this, Student_info this)"
| "invoke CS_Student Info this = Inr (this, CS_Student_info this)"
| "invoke CS_Student (Add rnumber nice) this = Inr (CS_Student_add rnumber nice this, [])"
| "invoke Student (Add rnumber nice) this = Inl (TypeError ''add is not a function'')"




section \<open>The clock: the interval callback\<close>

text \<open>
  The callback samples \<^verbatim>\<open>new Date()\<close> and writes four strings into the elements of class
  \<^verbatim>\<open>time\<close>. The three definitions below are the values of the local variables
  \<^verbatim>\<open>hours\<close>, \<^verbatim>\<open>minutes\<close>, \<^verbatim>\<open>seconds\<close> as the template literals render them, and
  \<^verbatim>\<open>period\<close>.
\<close>

definition clock_period :: "js_date \<Rightarrow> string" where
  "clock_period a = (if getHours a \<ge> 12 then ''PM'' else ''AM'')"

definition clock_hours :: "js_date \<Rightarrow> string" where
  "clock_hours a =
     (let h = getHours a;
          h = h mod 12;
          h = (if h \<noteq> 0 then h else 12)
      in if h < 10 then ''0'' @ nat_toString h else nat_toString h)"

definition clock_minutes :: "js_date \<Rightarrow> string" where
  "clock_minutes a =
     (let m = getMinutes a in if m < 10 then ''0'' @ nat_toString m else nat_toString m)"

definition clock_seconds :: "js_date \<Rightarrow> string" where
  "clock_seconds a =
     (let s = getSeconds a in if s < 10 then ''0'' @ nat_toString s else nat_toString s)"

text \<open>
  The document is the list of the \<^verbatim>\<open>innerHTML\<close> of its elements of class \<^verbatim>\<open>time\<close>, in
  document order. Indexing the collection past its end yields \<^verbatim>\<open>undefined\<close>, and the
  assignment to its \<^verbatim>\<open>innerHTML\<close> raises a TypeError; the writes made before it remain.
\<close>

fun write_innerHTML :: "(nat \<times> string) list \<Rightarrow> string list \<Rightarrow> string list \<times> js_error option" where
  "write_innerHTML [] nodes = (nodes, None)"
| "write_innerHTML ((i, text) # ws) nodes =
     (if i < length nodes then write_innerHTML ws (nodes[i := text])
      else (nodes, Some (TypeError ''Cannot set properties of undefined'')))"

definition clock_tick :: "js_date \<Rightarrow> string list \<Rightarrow> string list \<times> js_error option" where
  "clock_tick a nodes =
     write_innerHTML
       [(0, clock_hours a @ '':''),
        (1, clock_minutes a @ '':''),
        (2, clock_seconds a @ ''  ''),
        (3, '' '' @ clock_period a)] nodes"

text \<open>
  The hour as the specification words it: \<^verbatim>\<open>(hours % 12) || 12\<close>, padded to two digits
  with a leading zero. On numbers, \<^verbatim>\<open>a || b\<close> is \<^verbatim>\<open>a\<close> unless \<^verbatim>\<open>a\<close> is zero.
\<close>

definition num_or :: "nat \<Rightarrow> nat \<Rightarrow> nat" where
  "num_or a b = (if a \<noteq> 0 then a else b)"

definition spec_clock_hour :: "nat \<Rightarrow> string" where
  "spec_clock_hour h = padStart 2 ''0'' (nat_toString (num_or (h mod 12) 12))"

section \<open>Callbacks/script.js: the script loader with a callback\<close>

text \<open>
  A script element carries its source and its two event handlers. A handler acts on the
  world \<open>'w\<close> that the callback acts on. The browser later fires one of the two events on
  the element.
\<close>

datatype script_event = LoadEvent | ErrorEvent

record 'w script_element =
  script_src :: string
  script_onload :: "'w \<Rightarrow> 'w"
  script_onerror :: "'w \<Rightarrow> 'w"

definition Callbacks_func ::
  "string \<Rightarrow> (jsval \<Rightarrow> jsval \<Rightarrow> 'w \<Rightarrow> 'w) \<Rightarrow> 'w script_element list \<Rightarrow> 'w script_element list" where
  "Callbacks_func src load head =
     (let scrt = \<lparr>script_src = src,
                  script_onload = (\<lambda>w. load (Bool False) (Str src) w),
                  script_onerror = (\<lambda>w. load (Bool True) (Str src) w)\<rparr>
      in head @ [scrt])"

definition dispatch_event :: "script_event \<Rightarrow> 'w script_element \<Rightarrow> 'w \<Rightarrow> 'w" where
  "dispatch_event ev el w =
     (case ev of LoadEvent \<Rightarrow> script_onload el w | ErrorEvent \<Rightarrow> script_onerror el w)"

text \<open>The callback of the script, acting on the console.\<close>

definition success :: "jsval \<Rightarrow> jsval \<Rightarrow> string list \<Rightarrow> string list" where
  "success error src console =
     (if truthy error then console @ [''Error''] @ [js_toString src]
      else console @ [''Script Loaded''] @ [js_toString src])"

text \<open>A callback that only records the arguments of each of its invocations.\<close>

definition recording_callback :: "jsval \<Rightarrow> jsval \<Rightarrow> (jsval \<times> jsval) list \<Rightarrow> (jsval \<times> jsval) list" where
  "recording_callback error src calls = calls @ [(error, src)]"

section \<open>The script loader with a promise, and its chain of handlers\<close>

text \<open>
  The page is the sources of the script elements appended to the body, in order, the
  console, and the timers scheduled. The network decides the event each injected element receives: \<open>net k\<close> is the
  event of the element injected when the body already holds \<open>k\<close> of them.

  A promise chain whose every step waits for the one before is run in sequence: a step
  takes the page and yields how its promise settles and the page then.
  \<^verbatim>\<open>then\<close> runs its handler on fulfilment and passes a rejection on; \<^verbatim>\<open>catch\<close> runs its
  handler on rejection and passes a fulfilment on. A promise returned by a handler is adopted.
\<close>

record page =
  page_body :: "string list"
  page_console :: "string list"
  page_timers :: "nat list"

datatype settled = Resolved jsval | Rejected jsval

definition Promise_then :: "(jsval \<Rightarrow> page \<Rightarrow> settled \<times> page) \<Rightarrow> settled \<times> page \<Rightarrow> settled \<times> page" where
  "Promise_then onFulfilled p =
     (case p of (Resolved v, pg) \<Rightarrow> onFulfilled v pg | (Rejected e, pg) \<Rightarrow> (Rejected e, pg))"

definition Promise_catch :: "(jsval \<Rightarrow> page \<Rightarrow> settled \<times> page) \<Rightarrow> settled \<times> page \<Rightarrow> settled \<times> page" where
  "Promise_catch onRejected p =
     (case p of (Resolved v, pg) \<Rightarrow> (Resolved v, pg) | (Rejected e, pg) \<Rightarrow> onRejected e pg)"

text \<open>
  A delay is a timer: \<^verbatim>\<open>setTimeout(handler, delay)\<close> is the only way a script has to wait
  before its next step. The page keeps the delays of the timers scheduled so far.
\<close>

definition setTimeout :: "nat \<Rightarrow> page \<Rightarrow> page" where
  "setTimeout delay pg = pg\<lparr>page_timers := page_timers pg @ [delay]\<rparr>"

definition console_log :: "string \<Rightarrow> page \<Rightarrow> page" where
  "console_log line pg = pg\<lparr>page_console := page_console pg @ [line]\<rparr>"

definition Promises_func :: "(nat \<Rightarrow> script_event) \<Rightarrow> string \<Rightarrow> page \<Rightarrow> settled \<times> page" where
  "Promises_func net src pg =
     (let pg' = pg\<lparr>page_body := page_body pg @ [src]\<rparr>
      in case net (length (page_body pg)) of
           ErrorEvent \<Rightarrow> (Rejected (Str ''Rejected''), pg')
         | LoadEvent \<Rightarrow> (Resolved (Str ''resolve''), pg'))"

definition cdn_url :: string where
  "cdn_url = ''https://cdn.jsdelivr.net/npm/@tailwindcss/browser@4''"

definition on_value :: "jsval \<Rightarrow> page \<Rightarrow> settled \<times> page" where
  "on_value v pg =
     (Resolved Undefined,
      console_log (''this is value of resolve which is  '' @ js_toString v) pg)"

definition retry_chain :: "(nat \<Rightarrow> script_event) \<Rightarrow> page \<Rightarrow> settled \<times> page" where
  "retry_chain net pg =
     Promise_catch
       (\<lambda>error pg.
          let pg = console_log (''this is value of error which is  '' @ js_toString error) pg
          in Promise_catch
               (\<lambda>error pg.
                  let pg = console_log
                             (''this is value of error which is  '' @ js_toString error) pg
                  in Promises_func net cdn_url pg)
               (Promise_then on_value (Promises_func net cdn_url pg)))
       (Promise_then on_value (Promises_func net cdn_url pg))"

text \<open>
  The number of load attempts as the specification words it: an attempt follows each
  rejected one, three at most, and none follows an attempt that resolves.
\<close>

definition spec_attempts :: "(nat \<Rightarrow> script_event) \<Rightarrow> nat" where
  "spec_attempts net =
     (if net 0 = LoadEvent then 1 else if net 1 = LoadEvent then 2 else 3)"

definition empty_page :: page where
  "empty_page = \<lparr>page_body = [], page_console = [], page_timers = []\<rparr>"

section \<open>fatch API/script.js: the weather fetch\<close>



text \<open>
  The part of the document the script touches: the value of the input, the markup of the
  four output elements, and the \<^verbatim>\<open>display\<close> style and markup of the two containers.
\<close>

record weather_page =
  userinput_value :: string
  city_innerHTML :: string
  citytemp_innerHTML :: string
  wind_innerHTML :: string
  des_innerHTML :: string
  cantainer_display :: string
  fetching_display :: string
  fetching_innerHTML :: string
  console :: "jsval list"









section \<open>Facts about the built-ins\<close>

lemma nat_toString_digit: "n < 10 \<Longrightarrow> nat_toString n = [digit_char n]"
  by (simp add: nat_toString.simps)

lemma nat_toString_step:
  "10 \<le> n \<Longrightarrow> nat_toString n = nat_toString (n div 10) @ [digit_char (n mod 10)]"
  by (subst nat_toString.simps) simp

lemma length_nat_toString_digit: "n < 10 \<Longrightarrow> length (nat_toString n) = 1"
  by (simp add: nat_toString_digit)

lemma length_nat_toString_two: "10 \<le> n \<Longrightarrow> n < 100 \<Longrightarrow> length (nat_toString n) = 2"
  by (simp add: nat_toString_step nat_toString_digit)

lemma last_nat_toString: "last (nat_toString n) = digit_char (n mod 10)"
  by (subst nat_toString.simps) simp

lemma of_char_digit_char: "a < 10 \<Longrightarrow> (of_char (digit_char a) :: nat) = 48 + a"
proof -
  assume "a < 10"
  then have "a \<in> {0, 1, 2, 3, 4, 5, 6, 7, 8, 9}"
    by auto
  then show ?thesis
    by (auto simp: digit_char_def)
qed

lemma digit_char_inj: "a < 10 \<Longrightarrow> b < 10 \<Longrightarrow> digit_char a = digit_char b \<Longrightarrow> a = b"
proof -
  assume a: "a < 10" and b: "b < 10" and e: "digit_char a = digit_char b"
  have "(48::nat) + a = of_char (digit_char a)"
    using a by (simp only: of_char_digit_char)
  also have "\<dots> = of_char (digit_char b)"
    by (simp only: e)
  also have "\<dots> = 48 + b"
    using b by (simp only: of_char_digit_char)
  finally show "a = b"
    by simp
qed

lemma mod10_Suc_neq: "k mod 10 \<noteq> Suc k mod (10::nat)"
  by (simp add: mod_Suc)

text \<open>Consecutive numbers print differently: their last digits differ.\<close>

lemma nat_toString_pred_neq: "1 \<le> m \<Longrightarrow> nat_toString (m - 1) \<noteq> nat_toString m"
proof
  assume m: "1 \<le> m" and e: "nat_toString (m - 1) = nat_toString m"
  from m obtain k where k: "m = Suc k"
    by (cases m) auto
  from e have "digit_char (k mod 10) = digit_char (Suc k mod 10)"
    using last_nat_toString[of k] last_nat_toString[of "Suc k"] by (simp add: k)
  then have "k mod 10 = Suc k mod 10"
    by (rule digit_char_inj[rotated 2]) simp_all
  then show False
    using mod10_Suc_neq[of k] by simp
qed

section \<open>Student and CS_Student\<close>

lemma ascii_toUpperCase_alphabet:
  "ascii_toUpperCase ''abcdefghijklmnopqrstuvwxyz'' = ''ABCDEFGHIJKLMNOPQRSTUVWXYZ''"
  by code_simp

lemma ascii_toUpperCase_keeps:
  "ascii_toUpperCase ''ABCXYZ 0123456789 @[`{/:-_.'' = ''ABCXYZ 0123456789 @[`{/:-_.''"
  by code_simp

lemma ascii_toUpperCase_name: "ascii_toUpperCase ''Rizwan Ahmed '' = ''RIZWAN AHMED ''"
  by code_simp

lemma ascii_toUpperCase_program:
  "ascii_toUpperCase ''Inofrmation Tehcnology'' = ''INOFRMATION TEHCNOLOGY''"
  by code_simp

text \<open>
  Claim C9. A \<^verbatim>\<open>Student\<close> or \<^verbatim>\<open>CS_Student\<close> constructed from the strings \<open>name\<close> and
  \<open>program\<close> stores \<open>name.toUpperCase()\<close> and \<open>program.toUpperCase()\<close>, for every string
  and whatever the engine's case mapping is. The new instance has these two properties and
  no other, so the inputs in their original case are not kept. At the script's own call,
  \<^verbatim>\<open>new CS_Student("Rizwan Ahmed ", "Inofrmation Tehcnology")\<close>, the instance holds
  \<^verbatim>\<open>RIZWAN AHMED \<close> and \<^verbatim>\<open>INOFRMATION TEHCNOLOGY\<close>, and the name as it was passed is
  not the stored one.
\<close>

theorem constructor_stores_upper_case:
  "new toUpperCase c (Str name) (Str program) =
     Inr ([''name'' \<mapsto> Str (toUpperCase name), ''program'' \<mapsto> Str (toUpperCase program)],
          [toUpperCase name @ '' Your Form is in panding please submit it first''])
   \<and> new ascii_toUpperCase CS_Student (Str ''Rizwan Ahmed '') (Str ''Inofrmation Tehcnology'') =
       Inr ([''name'' \<mapsto> Str ''RIZWAN AHMED '', ''program'' \<mapsto> Str ''INOFRMATION TEHCNOLOGY''],
            [''RIZWAN AHMED  Your Form is in panding please submit it first''])
   \<and> Str (ascii_toUpperCase ''Rizwan Ahmed '') \<noteq> Str ''Rizwan Ahmed ''
   \<and> Str (ascii_toUpperCase ''Inofrmation Tehcnology'') \<noteq> Str ''Inofrmation Tehcnology''"
  by (simp add: new_def get_def ascii_toUpperCase_name ascii_toUpperCase_program)

text \<open>
  Claim C7. \<^verbatim>\<open>cancel()\<close> sets \<open>name\<close> and \<open>program\<close> to \<^verbatim>\<open>undefined\<close> and changes nothing
  else: the instance afterwards is the instance before with these two properties
  overwritten; in particular \<open>hours\<close>, \<open>minutes\<close>, \<open>seconds\<close>, \<open>date\<close>, \<open>rnumber\<close> and
  \<open>nice\<close> are as they were.
\<close>

theorem cancel_frame:
  "fst (Student_cancel x this) = this(''name'' \<mapsto> Undefined, ''program'' \<mapsto> Undefined)
   \<and> map (fst (Student_cancel x this))
         [''hours'', ''minutes'', ''seconds'', ''date'', ''rnumber'', ''nice'']
     = map this [''hours'', ''minutes'', ''seconds'', ''date'', ''rnumber'', ''nice'']"
  by (simp add: Student_cancel_def)

text \<open>
  Claim C3. Whatever the instance held before, \<^verbatim>\<open>info()\<close> called after \<^verbatim>\<open>cancel()\<close>
  logs the single line \<^verbatim>\<open>Student not exits!\<close> and nothing else, for \<^verbatim>\<open>Student\<close> and for
  the override in \<^verbatim>\<open>CS_Student\<close>, and leaves the instance as \<^verbatim>\<open>cancel()\<close> left it.
\<close>

theorem info_after_cancel:
  "Student_info (fst (Student_cancel x this)) = [''Student not exits!'']
   \<and> CS_Student_info (fst (Student_cancel x this)) = [''Student not exits!'']
   \<and> invoke c Info (fst (Student_cancel x this))
       = Inr (fst (Student_cancel x this), [''Student not exits!''])"
  by (cases c) (simp_all add: Student_cancel_def Student_info_def CS_Student_info_def get_def)



text \<open>
  Claim C10. The date recorded by \<^verbatim>\<open>submit()\<close> and the date logged by \<^verbatim>\<open>cancel()\<close> take
  the month from \<^verbatim>\<open>getMonth()\<close> as it is: in calendar month \<open>m\<close> (1 to 12) the string is
  day, \<open>m - 1\<close>, year, separated by slashes, and its month component is not the numeral of
  \<open>m\<close>.
\<close>

theorem date_month_is_zero_based:
  assumes "1 \<le> civil_month now" and "civil_month now \<le> 12"
  shows "get (fst (Student_submit now this)) ''date'' =
           Str (nat_toString (civil_day now) @ ''/'' @ nat_toString (civil_month now - 1)
                @ ''/'' @ nat_toString (civil_year now))
       \<and> snd (Student_cancel now this) =
           [js_toString (get this ''name'') @ '' Your Form was Cancelled  on  ''
              @ nat_toString (civil_day now) @ ''/'' @ nat_toString (civil_month now - 1)
              @ ''/'' @ nat_toString (civil_year now) @ '' For Program ''
              @ js_toString (get this ''program'')]
       \<and> nat_toString (civil_month now - 1) \<noteq> nat_toString (civil_month now)"
  using assms nat_toString_pred_neq[of "civil_month now"]
  by (simp add: Student_submit_def Student_cancel_def get_def getMonth_def getDate_def
        getFullYear_def)

theorem date_month_is_zero_based_witness:
  "(1::nat) \<le> 11 \<and> (11::nat) \<le> 12
   \<and> get (fst (Student_submit \<lparr>civil_year = 2026, civil_month = 11, civil_day = 3,
              civil_hours = 9, civil_minutes = 5, civil_seconds = 59\<rparr> Map.empty)) ''date''
       = Str ''3/10/2026''
   \<and> snd (Student_cancel \<lparr>civil_year = 2026, civil_month = 11, civil_day = 3,
              civil_hours = 9, civil_minutes = 5, civil_seconds = 59\<rparr>
            [''name'' \<mapsto> Str ''A'', ''program'' \<mapsto> Str ''IT''])
       = [''A Your Form was Cancelled  on  3/10/2026 For Program IT'']"
  using
    date_month_is_zero_based[of "\<lparr>civil_year = 2026, civil_month = 11, civil_day = 3,
      civil_hours = 9, civil_minutes = 5, civil_seconds = 59\<rparr>" Map.empty]
    date_month_is_zero_based[of "\<lparr>civil_year = 2026, civil_month = 11, civil_day = 3,
      civil_hours = 9, civil_minutes = 5, civil_seconds = 59\<rparr>"
      "[''name'' \<mapsto> Str ''A'', ''program'' \<mapsto> Str ''IT'']"]
  by (simp add: nat_toString_digit nat_toString_step digit_char_def get_def)







section \<open>The clock\<close>

lemma clock_hours_spec: "clock_hours a = spec_clock_hour (getHours a)"
  by (auto simp: clock_hours_def spec_clock_hour_def num_or_def padStart_def Let_def
      length_nat_toString_digit length_nat_toString_two not_less)

lemma length_spec_clock_hour: "length (spec_clock_hour h) = 2"
proof (cases "num_or (h mod 12) 12 < 10")
  case True
  then show ?thesis
    by (simp add: spec_clock_hour_def padStart_def length_nat_toString_digit)
next
  case False
  moreover have "num_or (h mod 12) 12 < 100"
    by (simp add: num_or_def less_trans[OF mod_less_divisor])
  ultimately show ?thesis
    by (simp add: spec_clock_hour_def padStart_def length_nat_toString_two)
qed

text \<open>
  Claim C1. For every sampled time, the hour string the callback renders is
  \<^verbatim>\<open>(hours % 12) || 12\<close> padded with a leading zero to two digits, and the period it renders
  is \<^verbatim>\<open>AM\<close> exactly when \<^verbatim>\<open>hours < 12\<close> and \<^verbatim>\<open>PM\<close> otherwise. On a page that has the four
  elements of class \<^verbatim>\<open>time\<close> the tick completes, the first element receives the hour
  string followed by the separating colon, and the fourth the period after a space.
\<close>

theorem clock_renders_hour_and_period:
  "clock_hours a = spec_clock_hour (getHours a)
   \<and> length (clock_hours a) = 2
   \<and> (clock_period a = ''AM'') = (getHours a < 12)
   \<and> (clock_period a = ''PM'') = (\<not> getHours a < 12)
   \<and> (4 \<le> length nodes \<longrightarrow>
        (\<exists>nodes'. clock_tick a nodes = (nodes', None)
           \<and> length nodes' = length nodes
           \<and> nodes' ! 0 = clock_hours a @ '':''
           \<and> nodes' ! 3 = '' '' @ clock_period a))"
proof (intro conjI impI)
  show "clock_hours a = spec_clock_hour (getHours a)"
    by (rule clock_hours_spec)
  show "length (clock_hours a) = 2"
    by (simp add: clock_hours_spec length_spec_clock_hour)
  show "(clock_period a = ''AM'') = (getHours a < 12)"
    by (simp add: clock_period_def not_le)
  show "(clock_period a = ''PM'') = (\<not> getHours a < 12)"
    by (simp add: clock_period_def not_less)
next
  assume "4 \<le> length nodes"
  then show "\<exists>nodes'. clock_tick a nodes = (nodes', None)
           \<and> length nodes' = length nodes
           \<and> nodes' ! 0 = clock_hours a @ '':''
           \<and> nodes' ! 3 = '' '' @ clock_period a"
    by (auto simp: clock_tick_def)
qed

theorem clock_renders_hour_and_period_witness:
  "(4::nat) \<le> length [''--'', ''--'', ''--'', ''--'']
   \<and> clock_tick \<lparr>civil_year = 2026, civil_month = 11, civil_day = 3, civil_hours = 15,
         civil_minutes = 5, civil_seconds = 59\<rparr> [''--'', ''--'', ''--'', ''--'']
       = ([''03:'', ''05:'', ''59  '', '' PM''], None)
   \<and> clock_hours \<lparr>civil_year = 2026, civil_month = 11, civil_day = 3, civil_hours = 15,
         civil_minutes = 5, civil_seconds = 59\<rparr> = ''03''
   \<and> spec_clock_hour 15 = ''03''"
  using clock_renders_hour_and_period[of
      "\<lparr>civil_year = 2026, civil_month = 11, civil_day = 3, civil_hours = 15,
         civil_minutes = 5, civil_seconds = 59\<rparr>"
      "[''--'', ''--'', ''--'', ''--'']"]
  by (simp add: clock_tick_def clock_hours_def clock_minutes_def clock_seconds_def clock_period_def
       getHours_def getMinutes_def getSeconds_def spec_clock_hour_def num_or_def padStart_def
       nat_toString_digit nat_toString_step digit_char_def)

section \<open>The script loader with a callback\<close>

text \<open>
  Claim C4. \<^verbatim>\<open>func(src, load)\<close> injects one script element. When its \<^verbatim>\<open>load\<close> event fires,
  the effect is that of the single call \<^verbatim>\<open>load(false, src)\<close>; when its \<^verbatim>\<open>error\<close> event
  fires, that of the single call \<^verbatim>\<open>load(true, src)\<close>. The flag \<^verbatim>\<open>false\<close> is falsy and
  \<^verbatim>\<open>true\<close> is truthy. With the callback that records its invocations, each event adds
  exactly one record, whose second component is the URL passed in.
\<close>

theorem callback_invoked_once:
  "dispatch_event LoadEvent (last (Callbacks_func src load head)) w = load (Bool False) (Str src) w
   \<and> dispatch_event ErrorEvent (last (Callbacks_func src load head)) w
       = load (Bool True) (Str src) w
   \<and> \<not> truthy (Bool False) \<and> truthy (Bool True)
   \<and> dispatch_event LoadEvent (last (Callbacks_func src recording_callback head)) calls
       = calls @ [(Bool False, Str src)]
   \<and> dispatch_event ErrorEvent (last (Callbacks_func src recording_callback head)) calls
       = calls @ [(Bool True, Str src)]
   \<and> length (Callbacks_func src load head) = length head + 1
   \<and> script_src (last (Callbacks_func src load head)) = src"
  by (simp add: Callbacks_func_def dispatch_event_def recording_callback_def)

section \<open>The script loader with a promise\<close>

lemma setTimeout_schedules: "page_timers (setTimeout delay pg) = page_timers pg @ [delay]"
  by (simp add: setTimeout_def)

text \<open>
  Claim C5. Running the chain injects the same CDN URL once per load attempt. A rejected
  attempt is followed by the next one, up to three attempts in all (the first and two
  more), and an attempt that resolves is the last: the body never grows by more than three
  elements. The chain rejects exactly when all three attempts fail. There is no backoff: the
  chain schedules no timer, so nothing delays a re-invocation.
\<close>

theorem retry_chain_attempts:
  "page_body (snd (retry_chain net pg))
     = page_body pg @ replicate (spec_attempts (\<lambda>k. net (length (page_body pg) + k))) cdn_url
   \<and> length (page_body (snd (retry_chain net pg))) \<le> length (page_body pg) + 3
   \<and> (fst (retry_chain net pg) = Rejected (Str ''Rejected''))
       = (net (length (page_body pg)) = ErrorEvent \<and> net (length (page_body pg) + 1) = ErrorEvent
          \<and> net (length (page_body pg) + 2) = ErrorEvent)
   \<and> page_timers (snd (retry_chain net pg)) = page_timers pg"
  by (cases "net (length (page_body pg))"; cases "net (length (page_body pg) + 1)";
      cases "net (length (page_body pg) + 2)")
    (simp_all add: retry_chain_def Promise_catch_def Promise_then_def Promises_func_def on_value_def
      console_log_def spec_attempts_def Let_def numeral_2_eq_2 numeral_3_eq_3)

section \<open>The weather fetch\<close>









end
